theory Spec2Isabelle
  imports Main
begin

section \<open>Python values and exceptions\<close>

text \<open>
  A Python object that is not a tuple is represented by what \<^verbatim>\<open>str()\<close> and
  \<^verbatim>\<open>repr()\<close> return on it; a tuple by its components.
\<close>

datatype pyval = PyObj (obj_str: string) (obj_repr: string) | PyTuple "pyval list"

text \<open>
  A Python string without quotes, backslashes or control characters: its \<^verbatim>\<open>repr\<close> is
  the text between single quotes.
\<close>

definition py_string :: "string \<Rightarrow> pyval" where
  "py_string s = PyObj s ([CHR 0x27] @ s @ [CHR 0x27])"

fun join :: "string \<Rightarrow> string list \<Rightarrow> string" where
  "join sep [] = []"
| "join sep [x] = x"
| "join sep (x # y # ys) = x @ sep @ join sep (y # ys)"

text \<open>\<^verbatim>\<open>repr\<close> of a tuple: \<^verbatim>\<open>()\<close>, \<^verbatim>\<open>(a,)\<close>, \<^verbatim>\<open>(a, b)\<close>.\<close>

fun py_repr :: "pyval \<Rightarrow> string" where
  "py_repr (PyObj s r) = r"
| "py_repr (PyTuple xs) =
     ''('' @ join '', '' (map py_repr xs) @ (if length xs = 1 then '','' else '''') @ '')''"

text \<open>\<^verbatim>\<open>str\<close> of a tuple is its \<^verbatim>\<open>repr\<close>.\<close>

fun py_str :: "pyval \<Rightarrow> string" where
  "py_str (PyObj s r) = s"
| "py_str (PyTuple xs) = py_repr (PyTuple xs)"

text \<open>
  The exception classes of \<^verbatim>\<open>exceptions.py\<close>, the library classes that
  \<^verbatim>\<open>sqlalchemy_repository.py\<close> catches, and two classes standing for what it does not
  catch. \<open>IntegrityError\<close> stands for \<^verbatim>\<open>sqlalchemy.exc.IntegrityError\<close> and its subclasses,
  \<open>SQLAlchemyError\<close> for every other \<^verbatim>\<open>sqlalchemy.exc.SQLAlchemyError\<close>.
\<close>

datatype exc_class =
    BadValueError | NotFoundError | DuplicatedError | InternalServerError
  | DatabaseError | DatabaseIntegrityError
  | ValidationError | IntegrityError | SQLAlchemyError
  | TypeError | OtherException

datatype pyexc = Exc (cls: exc_class) (args: "pyval list")

text \<open>
  \<^verbatim>\<open>str(exc)\<close> for a class that does not override \<^verbatim>\<open>__str__\<close>, as none of the six
  classes of \<^verbatim>\<open>exceptions.py\<close> does: empty without arguments, \<^verbatim>\<open>str(args[0])\<close> with one,
  \<^verbatim>\<open>str(args)\<close> otherwise.
\<close>

definition str_exc :: "pyexc \<Rightarrow> string" where
  "str_exc exc =
     (case args exc of
        [] \<Rightarrow> ''''
      | [a] \<Rightarrow> py_str a
      | _ \<Rightarrow> py_str (PyTuple (args exc)))"

section \<open>responses.py\<close>

record ErrorModel =
  message :: string
  type :: "string option"

record 'a ResponseModel =
  success :: bool
  error :: "ErrorModel option"
  data :: "'a option"

text \<open>
  A keyword argument of a constructor call is either passed or left out; a left-out
  argument takes the default of the class. \<^verbatim>\<open>ResponseModel\<close> declares
  \<^verbatim>\<open>error: Optional[ErrorModel] = None\<close> and \<^verbatim>\<open>data: Optional[T] = None\<close>, and
  \<^verbatim>\<open>success\<close> has no default.
\<close>

datatype 'a kwarg = Omitted | Passed 'a

definition ResponseModel_init ::
  "bool \<Rightarrow> ErrorModel option kwarg \<Rightarrow> 'a option kwarg \<Rightarrow> 'a ResponseModel" where
  "ResponseModel_init success_arg error_arg data_arg =
     \<lparr> success = success_arg,
       error = (case error_arg of Omitted \<Rightarrow> None | Passed e \<Rightarrow> e),
       data = (case data_arg of Omitted \<Rightarrow> None | Passed d \<Rightarrow> d) \<rparr>"

text \<open>
  \<^verbatim>\<open>JSONResponse(status_code=..., content=response_model.model_dump())\<close>: the dumped
  dictionary has the fields of the model, so the content is kept as the record.
  \<^verbatim>\<open>ResponseModel[None]\<close> is the envelope whose data has type \<open>unit\<close>.
\<close>

record JSONResponse =
  status_code :: int
  content :: "unit ResponseModel"

section \<open>exceptions.py: the handlers\<close>

text \<open>
  Each handler computes \<^verbatim>\<open>text + ":" + str(exc) if str(exc) else text\<close>, a conditional
  expression whose first branch is the whole concatenation; a Python string is true when
  it is not empty. No handler reads \<^verbatim>\<open>request\<close> or anything outside its arguments.
\<close>

definition bad_value_error_exception_handler :: "'req \<Rightarrow> pyexc \<Rightarrow> JSONResponse" where
  "bad_value_error_exception_handler request exc =
     (let text = ''Bad Value error'';
          message = (if str_exc exc \<noteq> [] then text @ '':'' @ str_exc exc else text);
          error = \<lparr>message = message, type = Some ''BadValueErr''\<rparr>;
          response_model = ResponseModel_init False (Passed (Some error)) Omitted
      in \<lparr>status_code = 400, content = response_model\<rparr>)"

definition database_integrity_error_exception_handler :: "'req \<Rightarrow> pyexc \<Rightarrow> JSONResponse" where
  "database_integrity_error_exception_handler request exc =
     (let text = ''Database Integrity error'';
          message = (if str_exc exc \<noteq> [] then text @ '':'' @ str_exc exc else text);
          error = \<lparr>message = message, type = Some ''DatabaseIntegrityErr''\<rparr>;
          response_model = ResponseModel_init False (Passed (Some error)) Omitted
      in \<lparr>status_code = 400, content = response_model\<rparr>)"

definition database_error_exception_handler :: "'req \<Rightarrow> pyexc \<Rightarrow> JSONResponse" where
  "database_error_exception_handler request exc =
     (let text = ''Database error'';
          message = (if str_exc exc \<noteq> [] then text @ '':'' @ str_exc exc else text);
          error = \<lparr>message = message, type = Some ''DatabaseErr''\<rparr>;
          response_model = ResponseModel_init False (Passed (Some error)) Omitted
      in \<lparr>status_code = 400, content = response_model\<rparr>)"

definition not_found_exception_handler :: "'req \<Rightarrow> pyexc \<Rightarrow> JSONResponse" where
  "not_found_exception_handler request exc =
     (let text = ''Not found'';
          message = (if str_exc exc \<noteq> [] then text @ '':'' @ str_exc exc else text);
          error = \<lparr>message = message, type = Some ''NotFound''\<rparr>;
          response_model = ResponseModel_init False (Passed (Some error)) Omitted
      in \<lparr>status_code = 404, content = response_model\<rparr>)"

definition duplicated_exception_handler :: "'req \<Rightarrow> pyexc \<Rightarrow> JSONResponse" where
  "duplicated_exception_handler request exc =
     (let text = ''Duplicated entry'';
          message = (if str_exc exc \<noteq> [] then text @ '':'' @ str_exc exc else text);
          error = \<lparr>message = message, type = Some ''DuplicatedEntry''\<rparr>;
          response_model = ResponseModel_init False (Passed (Some error)) Omitted
      in \<lparr>status_code = 400, content = response_model\<rparr>)"

definition internal_server_error_exception_handler :: "'req \<Rightarrow> pyexc \<Rightarrow> JSONResponse" where
  "internal_server_error_exception_handler request exc =
     (let text = ''Unknown error'';
          message = (if str_exc exc \<noteq> [] then text @ '':'' @ str_exc exc else text);
          error = \<lparr>message = message, type = Some ''UnknownErr''\<rparr>;
          response_model = ResponseModel_init False (Passed (Some error)) Omitted
      in \<lparr>status_code = 500, content = response_model\<rparr>)"

definition exception_to_handler_list :: "(exc_class \<times> ('req \<Rightarrow> pyexc \<Rightarrow> JSONResponse)) list" where
  "exception_to_handler_list =
     [ (BadValueError, bad_value_error_exception_handler),
       (NotFoundError, not_found_exception_handler),
       (DuplicatedError, duplicated_exception_handler),
       (InternalServerError, internal_server_error_exception_handler),
       (DatabaseError, database_error_exception_handler),
       (DatabaseIntegrityError, database_integrity_error_exception_handler) ]"

section \<open>sqlalchemy_repository.py: what the repository calls\<close>

text \<open>
  The repository works on objects it does not define: the session, the model class,
  the model instances and the logger. Their values are opaque (\<open>'v\<close> for objects,
  identifiers and attribute values, \<open>'t\<close> for model classes), and every call the
  repository makes on them is an event of a trace, in the order the calls are made:
  \<^item> \<open>QueryFirst mt i\<close> is \<^verbatim>\<open>session.query(mt).filter_by(id=i).first()\<close>,
  \<^item> \<open>QueryAll mt skip limit\<close> is \<^verbatim>\<open>session.query(mt).offset(skip).limit(limit).all()\<close>,
  \<^item> \<open>Construct t obj_in\<close> is \<^verbatim>\<open>t(**obj_in)\<close>,
  \<^item> \<open>SetAttr obj key value\<close> is \<^verbatim>\<open>setattr(obj, key, value)\<close>,
  \<^item> \<open>Add\<close>, \<open>Commit\<close>, \<open>Refresh\<close>, \<open>Delete\<close> and \<open>Rollback\<close> are the session methods,
  \<^item> \<open>LoggerError fmt e\<close> is \<^verbatim>\<open>logger.error(fmt, e)\<close>.
  A class argument is \<open>None\<close> for Python's \<^verbatim>\<open>None\<close>. A dictionary \<^verbatim>\<open>dict[str, Any]\<close> is the
  list of its items in insertion order.
\<close>

datatype ('t, 'v) event =
    QueryFirst "'t option" 'v
  | QueryAll "'t option" int int
  | Construct 't "(string \<times> 'v) list"
  | SetAttr 'v string 'v
  | Add 'v
  | Commit
  | Refresh 'v
  | Delete 'v
  | Rollback
  | LoggerError string pyexc

text \<open>The events that are queries of the session.\<close>

definition is_query :: "('t, 'v) event \<Rightarrow> bool" where
  "is_query ev = (case ev of QueryFirst mt i \<Rightarrow> True | QueryAll mt skip limit \<Rightarrow> True | _ \<Rightarrow> False)"

datatype 'a result = Return 'a | Raise pyexc

text \<open>
  The world outside the module answers each call, given the calls made so far: it
  returns a value or raises. Any call may raise, \<open>Rollback\<close> too. A piece of the
  repository's code takes the trace so far and gives its result and the extended trace.
\<close>

type_synonym ('t, 'v) world = "('t, 'v) event list \<Rightarrow> ('t, 'v) event \<Rightarrow> 'v result"

type_synonym ('t, 'v, 'a) prog = "('t, 'v) event list \<Rightarrow> 'a result \<times> ('t, 'v) event list"

definition call :: "('t, 'v) world \<Rightarrow> ('t, 'v) event \<Rightarrow> ('t, 'v, 'v) prog" where
  "call w c tr = (w tr c, tr @ [c])"

text \<open>
  \<^verbatim>\<open>logger.error\<close> only records: the logging module reports a failure of a handler or
  of the formatting on stderr and does not raise.
\<close>

definition logger_error :: "string \<Rightarrow> pyexc \<Rightarrow> ('t, 'v, unit) prog" where
  "logger_error fmt e tr = (Return (), tr @ [LoggerError fmt e])"

definition return :: "'a \<Rightarrow> ('t, 'v, 'a) prog" where
  "return x tr = (Return x, tr)"

definition raise :: "pyexc \<Rightarrow> ('t, 'v, 'a) prog" where
  "raise e tr = (Raise e, tr)"

text \<open>Sequencing: the second statement runs only when the first returns.\<close>

definition seq :: "('t, 'v, 'a) prog \<Rightarrow> ('a \<Rightarrow> ('t, 'v, 'b) prog) \<Rightarrow> ('t, 'v, 'b) prog" where
  "seq m f tr =
     (case m tr of
        (Return x, tr') \<Rightarrow> f x tr'
      | (Raise e, tr') \<Rightarrow> (Raise e, tr'))"

text \<open>
  \<^verbatim>\<open>isinstance(e, c)\<close> on the classes above: \<^verbatim>\<open>IntegrityError\<close> is a subclass of
  \<^verbatim>\<open>SQLAlchemyError\<close>, and no other two of them are related.
\<close>

definition isinstance :: "pyexc \<Rightarrow> exc_class \<Rightarrow> bool" where
  "isinstance e c = (cls e = c \<or> (cls e = IntegrityError \<and> c = SQLAlchemyError))"

text \<open>
  \<^verbatim>\<open>try: body except C1 as e: h1 except C2 as e: h2\<close>: the first clause whose class the
  exception is an instance of runs; an exception raised inside a clause is not caught by
  the clauses after it; an exception that no clause matches goes on to the caller.
\<close>

definition try_except ::
  "('t, 'v, 'a) prog \<Rightarrow> (exc_class \<times> (pyexc \<Rightarrow> ('t, 'v, 'a) prog)) list \<Rightarrow> ('t, 'v, 'a) prog" where
  "try_except body clauses tr =
     (case body tr of
        (Return x, tr') \<Rightarrow> (Return x, tr')
      | (Raise e, tr') \<Rightarrow>
          (case find (\<lambda>(c, h). isinstance e c) clauses of
             None \<Rightarrow> (Raise e, tr')
           | Some (c, h) \<Rightarrow> h e tr'))"

section \<open>sqlalchemy_repository.py: SQLAlchemyRepository\<close>

text \<open>
  The session of the repository is the world \<open>w\<close> that every method takes first; the
  other attribute is the model class, \<open>None\<close> when \<^verbatim>\<open>__init__\<close> was given \<^verbatim>\<open>None\<close>.
\<close>

record 't SQLAlchemyRepository =
  model_type :: "'t option"

text \<open>\<^verbatim>\<open>a or b\<close> on classes: a class is true, \<^verbatim>\<open>None\<close> is false.\<close>

definition py_or :: "'t option \<Rightarrow> 't option \<Rightarrow> 't option" where
  "py_or a b = (case a of Some t \<Rightarrow> Some t | None \<Rightarrow> b)"

text \<open>
  The two clauses that end every method have the same text in all five:
  \<^verbatim>\<open>
  except IntegrityError as e:
      self.session.rollback()
      logger.error("Erro de Integridade do Banco de Dados: %s", e)
      raise DatabaseIntegrityError(e.args)
  except SQLAlchemyError as e:
      self.session.rollback()
      logger.error("Erro do Banco de Dados: %s", e)
      raise DatabaseError(e.args)
  \<close>
  \<^verbatim>\<open>DatabaseIntegrityError(e.args)\<close> has one argument, the tuple \<^verbatim>\<open>e.args\<close>.
\<close>

definition except_IntegrityError :: "('t, 'v) world \<Rightarrow> pyexc \<Rightarrow> ('t, 'v, 'a) prog" where
  "except_IntegrityError w e =
     seq (call w Rollback) (\<lambda>_.
     seq (logger_error ''Erro de Integridade do Banco de Dados: %s'' e) (\<lambda>_.
     raise (Exc DatabaseIntegrityError [PyTuple (args e)])))"

definition except_SQLAlchemyError :: "('t, 'v) world \<Rightarrow> pyexc \<Rightarrow> ('t, 'v, 'a) prog" where
  "except_SQLAlchemyError w e =
     seq (call w Rollback) (\<lambda>_.
     seq (logger_error ''Erro do Banco de Dados: %s'' e) (\<lambda>_.
     raise (Exc DatabaseError [PyTuple (args e)])))"

subsection \<open>get\<close>

definition get_try ::
  "('t, 'v) world \<Rightarrow> 't SQLAlchemyRepository \<Rightarrow> 't option \<Rightarrow> 'v \<Rightarrow> ('t, 'v, 'v) prog" where
  "get_try w self model_type' id' =
     seq (call w (QueryFirst (py_or (model_type self) model_type') id')) (\<lambda>result.
     return result)"

definition get ::
  "('t, 'v) world \<Rightarrow> 't SQLAlchemyRepository \<Rightarrow> 't option \<Rightarrow> 'v \<Rightarrow> ('t, 'v, 'v) prog" where
  "get w self model_type' id' =
     try_except (get_try w self model_type' id')
       [ (IntegrityError, except_IntegrityError w),
         (SQLAlchemyError, except_SQLAlchemyError w) ]"

subsection \<open>get_multi\<close>

definition get_multi_try ::
  "('t, 'v) world \<Rightarrow> 't SQLAlchemyRepository \<Rightarrow> 't option \<Rightarrow> int \<Rightarrow> int \<Rightarrow> ('t, 'v, 'v) prog" where
  "get_multi_try w self model_type' skip limit =
     seq (call w (QueryAll (py_or (model_type self) model_type') skip limit)) (\<lambda>result.
     return result)"

definition get_multi ::
  "('t, 'v) world \<Rightarrow> 't SQLAlchemyRepository \<Rightarrow> 't option \<Rightarrow> int \<Rightarrow> int \<Rightarrow> ('t, 'v, 'v) prog" where
  "get_multi w self model_type' skip limit =
     try_except (get_multi_try w self model_type' skip limit)
       [ (IntegrityError, except_IntegrityError w),
         (SQLAlchemyError, except_SQLAlchemyError w) ]"

subsection \<open>create\<close>

text \<open>
  \<^verbatim>\<open>self.model_type(**obj_in)\<close>: calling \<^verbatim>\<open>None\<close> raises
  \<^verbatim>\<open>TypeError("'NoneType' object is not callable")\<close>; calling a class is a call of the world.
\<close>

definition none_not_callable :: pyval where
  "none_not_callable =
     (let msg = [CHR 0x27] @ ''NoneType'' @ [CHR 0x27] @ '' object is not callable''
      in PyObj msg ([CHR 0x22] @ msg @ [CHR 0x22]))"

definition construct ::
  "('t, 'v) world \<Rightarrow> 't option \<Rightarrow> (string \<times> 'v) list \<Rightarrow> ('t, 'v, 'v) prog" where
  "construct w cls_obj obj_in =
     (case cls_obj of
        None \<Rightarrow> raise (Exc TypeError [none_not_callable])
      | Some t \<Rightarrow> call w (Construct t obj_in))"

text \<open>
  The first statement of the body assigns to \<^verbatim>\<open>db_obj\<close>, so the argument of that name is
  never read: the \<open>db_obj\<close> bound below is the constructed object.
\<close>

definition create_try ::
  "('t, 'v) world \<Rightarrow> 't SQLAlchemyRepository \<Rightarrow> 'v \<Rightarrow> (string \<times> 'v) list \<Rightarrow> ('t, 'v, 'v) prog" where
  "create_try w self db_obj obj_in =
     seq (construct w (model_type self) obj_in) (\<lambda>db_obj.
     seq (call w (Add db_obj)) (\<lambda>_.
     seq (call w Commit) (\<lambda>_.
     seq (call w (Refresh db_obj)) (\<lambda>_.
     return db_obj))))"

definition parsing_message :: pyval where
  "parsing_message = py_string ''Erro inesperado ao fazer o parsing para o modelo''"

definition create ::
  "('t, 'v) world \<Rightarrow> 't SQLAlchemyRepository \<Rightarrow> 'v \<Rightarrow> (string \<times> 'v) list \<Rightarrow> ('t, 'v, 'v) prog" where
  "create w self db_obj obj_in =
     try_except (create_try w self db_obj obj_in)
       [ (ValidationError, \<lambda>e. raise (Exc InternalServerError [parsing_message, PyTuple (args e)])),
         (IntegrityError, except_IntegrityError w),
         (SQLAlchemyError, except_SQLAlchemyError w) ]"

subsection \<open>update\<close>

text \<open>\<^verbatim>\<open>for key, value in obj_in.items(): setattr(db_obj, key, value)\<close>\<close>

fun set_attrs :: "('t, 'v) world \<Rightarrow> 'v \<Rightarrow> (string \<times> 'v) list \<Rightarrow> ('t, 'v, unit) prog" where
  "set_attrs w db_obj [] = return ()"
| "set_attrs w db_obj ((key, val) # items) =
     seq (call w (SetAttr db_obj key val)) (\<lambda>_. set_attrs w db_obj items)"

definition update_try ::
  "('t, 'v) world \<Rightarrow> 't SQLAlchemyRepository \<Rightarrow> 'v \<Rightarrow> (string \<times> 'v) list \<Rightarrow> ('t, 'v, unit) prog" where
  "update_try w self db_obj obj_in =
     seq (set_attrs w db_obj obj_in) (\<lambda>_.
     seq (call w (Add db_obj)) (\<lambda>_.
     seq (call w Commit) (\<lambda>_.
     seq (call w (Refresh db_obj)) (\<lambda>_.
     return ()))))"

definition update ::
  "('t, 'v) world \<Rightarrow> 't SQLAlchemyRepository \<Rightarrow> 'v \<Rightarrow> (string \<times> 'v) list \<Rightarrow> ('t, 'v, unit) prog" where
  "update w self db_obj obj_in =
     try_except (update_try w self db_obj obj_in)
       [ (IntegrityError, except_IntegrityError w),
         (SQLAlchemyError, except_SQLAlchemyError w) ]"

subsection \<open>delete\<close>

definition delete_try ::
  "('t, 'v) world \<Rightarrow> 't SQLAlchemyRepository \<Rightarrow> 'v \<Rightarrow> ('t, 'v, unit) prog" where
  "delete_try w self db_obj =
     seq (call w (Delete db_obj)) (\<lambda>_.
     seq (call w Commit) (\<lambda>_.
     return ()))"

definition delete ::
  "('t, 'v) world \<Rightarrow> 't SQLAlchemyRepository \<Rightarrow> 'v \<Rightarrow> ('t, 'v, unit) prog" where
  "delete w self db_obj =
     try_except (delete_try w self db_obj)
       [ (IntegrityError, except_IntegrityError w),
         (SQLAlchemyError, except_SQLAlchemyError w) ]"

section \<open>Reading a response, and the success envelope\<close>

definition error_message :: "JSONResponse \<Rightarrow> string option" where
  "error_message r = map_option message (error (content r))"

definition error_type :: "JSONResponse \<Rightarrow> string option option" where
  "error_type r = map_option type (error (content r))"

text \<open>
  Modelled from the spec: the construction of the success envelope (section 4.3,
  \<^verbatim>\<open>success=true\<close>, \<^verbatim>\<open>data=<result>\<close>, \<^verbatim>\<open>error\<close> absent). No function of the
  repository builds it; \<^verbatim>\<open>responses.py\<close> declares the class only. It is the
  constructor call \<^verbatim>\<open>ResponseModel(success=True, data=v)\<close> on the class as declared.
\<close>

definition success_envelope :: "'a \<Rightarrow> 'a ResponseModel" where
  "success_envelope v = ResponseModel_init True Omitted (Passed (Some v))"

section \<open>Example worlds\<close>

text \<open>A world in which every call returns \<open>v\<close>.\<close>

definition returning_world :: "'v \<Rightarrow> ('t, 'v) world" where
  "returning_world v tr c = Return v"

text \<open>A world in which every call raises \<open>e\<close>, except \<open>Rollback\<close>, which returns \<open>v\<close>.\<close>

definition failing_world :: "'v \<Rightarrow> pyexc \<Rightarrow> ('t, 'v) world" where
  "failing_world v e tr c = (if c = Rollback then Return v else Raise e)"

text \<open>A world in which every call raises \<open>e\<close>, except \<open>Rollback\<close>, which raises \<open>e'\<close>.\<close>

definition rollback_failing_world :: "pyexc \<Rightarrow> pyexc \<Rightarrow> ('t, 'v) world" where
  "rollback_failing_world e e' tr c = (if c = Rollback then Raise e' else Raise e)"

section \<open>The handlers and the registration table\<close>

lemmas handler_defs =
  bad_value_error_exception_handler_def database_integrity_error_exception_handler_def
  database_error_exception_handler_def not_found_exception_handler_def
  duplicated_exception_handler_def internal_server_error_exception_handler_def

lemmas response_defs = ResponseModel_init_def error_message_def error_type_def Let_def

text \<open>
  Scenario B of the spec: \<^verbatim>\<open>NotFoundError("42")\<close> gives 404, the label and the message
  with the argument; \<^verbatim>\<open>NotFoundError()\<close> gives the prefix alone.
\<close>

lemma not_found_42:
  "not_found_exception_handler request (Exc NotFoundError [py_string ''42'']) =
     \<lparr> status_code = 404,
       content = \<lparr> success = False,
                   error = Some \<lparr>message = ''Not found:42'', type = Some ''NotFound''\<rparr>,
                   data = None \<rparr> \<rparr>
 \<and> error_message (not_found_exception_handler request (Exc NotFoundError [])) = Some ''Not found''"
  by (simp add: handler_defs response_defs str_exc_def py_string_def)

text \<open>
  C1. For each of the six error kinds the table registers a handler, and that handler,
  on any request and any exception, answers with the status code and the \<open>error.type\<close>
  of the kind: 400 and BadValueErr, 404 and NotFound, 400 and DuplicatedEntry, 500 and
  UnknownErr, 400 and DatabaseIntegrityErr, 400 and DatabaseErr.
\<close>

theorem registered_handler_status_and_type:
  "(\<exists>h. map_of exception_to_handler_list BadValueError = Some h
        \<and> status_code (h request exc) = 400
        \<and> error_type (h request exc) = Some (Some ''BadValueErr''))
 \<and> (\<exists>h. map_of exception_to_handler_list NotFoundError = Some h
        \<and> status_code (h request exc) = 404
        \<and> error_type (h request exc) = Some (Some ''NotFound''))
 \<and> (\<exists>h. map_of exception_to_handler_list DuplicatedError = Some h
        \<and> status_code (h request exc) = 400
        \<and> error_type (h request exc) = Some (Some ''DuplicatedEntry''))
 \<and> (\<exists>h. map_of exception_to_handler_list InternalServerError = Some h
        \<and> status_code (h request exc) = 500
        \<and> error_type (h request exc) = Some (Some ''UnknownErr''))
 \<and> (\<exists>h. map_of exception_to_handler_list DatabaseIntegrityError = Some h
        \<and> status_code (h request exc) = 400
        \<and> error_type (h request exc) = Some (Some ''DatabaseIntegrityErr''))
 \<and> (\<exists>h. map_of exception_to_handler_list DatabaseError = Some h
        \<and> status_code (h request exc) = 400
        \<and> error_type (h request exc) = Some (Some ''DatabaseErr''))"
  by (simp add: exception_to_handler_list_def handler_defs response_defs)

text \<open>
  C2. For every exception and every handler, \<open>error.message\<close> is the handler's fixed
  prefix alone when \<open>str(exc)\<close> is empty, and the prefix, a colon and \<open>str(exc)\<close>
  otherwise. The separating colon is never left at the end: the message is never the
  prefix followed by a bare colon.
\<close>

theorem handler_message:
  "error_message (bad_value_error_exception_handler request exc) =
     Some (if str_exc exc = [] then ''Bad Value error'' else ''Bad Value error'' @ '':'' @ str_exc exc)
 \<and> error_message (not_found_exception_handler request exc) =
     Some (if str_exc exc = [] then ''Not found'' else ''Not found'' @ '':'' @ str_exc exc)
 \<and> error_message (duplicated_exception_handler request exc) =
     Some (if str_exc exc = [] then ''Duplicated entry'' else ''Duplicated entry'' @ '':'' @ str_exc exc)
 \<and> error_message (internal_server_error_exception_handler request exc) =
     Some (if str_exc exc = [] then ''Unknown error'' else ''Unknown error'' @ '':'' @ str_exc exc)
 \<and> error_message (database_integrity_error_exception_handler request exc) =
     Some (if str_exc exc = [] then ''Database Integrity error''
           else ''Database Integrity error'' @ '':'' @ str_exc exc)
 \<and> error_message (database_error_exception_handler request exc) =
     Some (if str_exc exc = [] then ''Database error'' else ''Database error'' @ '':'' @ str_exc exc)
 \<and> error_message (bad_value_error_exception_handler request exc) \<noteq> Some (''Bad Value error'' @ '':'')
 \<and> error_message (not_found_exception_handler request exc) \<noteq> Some (''Not found'' @ '':'')
 \<and> error_message (duplicated_exception_handler request exc) \<noteq> Some (''Duplicated entry'' @ '':'')
 \<and> error_message (internal_server_error_exception_handler request exc) \<noteq> Some (''Unknown error'' @ '':'')
 \<and> error_message (database_integrity_error_exception_handler request exc)
       \<noteq> Some (''Database Integrity error'' @ '':'')
 \<and> error_message (database_error_exception_handler request exc) \<noteq> Some (''Database error'' @ '':'')"
  by (simp add: handler_defs response_defs)

text \<open>
  C3, as stated: the keys of the table in the order BadValue, NotFound, Duplicated,
  InternalServerError, DatabaseIntegrityError, DatabaseError. The table has the last two
  the other way round.
\<close>

theorem table_order_counterexample:
  "map fst (exception_to_handler_list :: (exc_class \<times> (unit \<Rightarrow> pyexc \<Rightarrow> JSONResponse)) list)
     \<noteq> [BadValueError, NotFoundError, DuplicatedError, InternalServerError,
         DatabaseIntegrityError, DatabaseError]"
  by (simp add: exception_to_handler_list_def)

text \<open>
  C3, amended. The table holds exactly one pair for each of the six error kinds, each
  kind with the handler of its own label, in the insertion order BadValue, NotFound,
  Duplicated, InternalServerError, DatabaseError, DatabaseIntegrityError.
\<close>

theorem table_order:
  "map (\<lambda>(k, h). (k, error_type (h request exc))) exception_to_handler_list =
     [ (BadValueError, Some (Some ''BadValueErr'')),
       (NotFoundError, Some (Some ''NotFound'')),
       (DuplicatedError, Some (Some ''DuplicatedEntry'')),
       (InternalServerError, Some (Some ''UnknownErr'')),
       (DatabaseError, Some (Some ''DatabaseErr'')),
       (DatabaseIntegrityError, Some (Some ''DatabaseIntegrityErr'')) ]
 \<and> distinct (map fst (exception_to_handler_list :: (exc_class \<times> ('req \<Rightarrow> pyexc \<Rightarrow> JSONResponse)) list))"
  by (simp add: exception_to_handler_list_def handler_defs response_defs)

text \<open>
  C7. The envelope of every handler has \<open>success\<close> false, an error payload and no data;
  the success envelope of a result \<open>v\<close> has \<open>success\<close> true, the data \<open>v\<close> and no
  error; and no handler's envelope is a success envelope.
\<close>

theorem envelope_shapes:
  "map (\<lambda>(k, h). (success (content (h request exc)),
                   error (content (h request exc)) \<noteq> None,
                   data (content (h request exc))))
       exception_to_handler_list
     = replicate 6 (False, True, None)
 \<and> success (success_envelope v) = True
 \<and> data (success_envelope v) = Some v
 \<and> error (success_envelope v) = None
 \<and> list_all (\<lambda>(k, h). content (h request exc) \<noteq> success_envelope u) exception_to_handler_list"
  by (simp add: exception_to_handler_list_def handler_defs response_defs success_envelope_def
        numeral_eq_Suc)

text \<open>
  C8. A handler is a function of the exception alone: on two requests and the same
  exception each of the six handlers gives the same response, status code and content.
  The response body is computed from the content, so equal responses have equal bodies.
\<close>

theorem handler_ignores_request:
  "map (\<lambda>(k, h). h request1 exc) exception_to_handler_list
     = map (\<lambda>(k, h). h request2 exc) exception_to_handler_list"
  by (simp add: exception_to_handler_list_def handler_defs)

section \<open>The repository: try and except\<close>

lemmas prog_defs = seq_def call_def return_def raise_def logger_error_def try_except_def
  isinstance_def except_IntegrityError_def except_SQLAlchemyError_def construct_def py_or_def

lemmas op_defs = get_def get_try_def get_multi_def get_multi_try_def create_def create_try_def
  update_def update_try_def delete_def delete_try_def

lemma try_except_returns:
  "body tr = (Return x, tr1) \<Longrightarrow> try_except body clauses tr = (Return x, tr1)"
  by (simp add: try_except_def)

text \<open>What each of the two shared clauses does when the rollback returns.\<close>

lemma except_IntegrityError_run:
  "w tr1 Rollback = Return v \<Longrightarrow>
   except_IntegrityError w e tr1 =
     (Raise (Exc DatabaseIntegrityError [PyTuple (args e)]),
      tr1 @ [Rollback, LoggerError ''Erro de Integridade do Banco de Dados: %s'' e])"
  by (simp add: except_IntegrityError_def seq_def call_def logger_error_def raise_def)

lemma except_SQLAlchemyError_run:
  "w tr1 Rollback = Return v \<Longrightarrow>
   except_SQLAlchemyError w e tr1 =
     (Raise (Exc DatabaseError [PyTuple (args e)]),
      tr1 @ [Rollback, LoggerError ''Erro do Banco de Dados: %s'' e])"
  by (simp add: except_SQLAlchemyError_def seq_def call_def logger_error_def raise_def)

text \<open>Which clause an exception of the body selects.\<close>

lemma db_clauses_raise:
  "body tr = (Raise e, tr1) \<Longrightarrow>
   try_except body
     [(IntegrityError, except_IntegrityError w), (SQLAlchemyError, except_SQLAlchemyError w)] tr =
     (if cls e = IntegrityError then except_IntegrityError w e tr1
      else if cls e = SQLAlchemyError then except_SQLAlchemyError w e tr1
      else (Raise e, tr1))"
  by (simp add: try_except_def isinstance_def)

lemma create_clauses_raise:
  "body tr = (Raise e, tr1) \<Longrightarrow>
   try_except body
     [(ValidationError, \<lambda>e. raise (Exc InternalServerError [parsing_message, PyTuple (args e)])),
      (IntegrityError, except_IntegrityError w), (SQLAlchemyError, except_SQLAlchemyError w)] tr =
     (if cls e = ValidationError
      then (Raise (Exc InternalServerError [parsing_message, PyTuple (args e)]), tr1)
      else if cls e = IntegrityError then except_IntegrityError w e tr1
      else if cls e = SQLAlchemyError then except_SQLAlchemyError w e tr1
      else (Raise e, tr1))"
  by (simp add: try_except_def isinstance_def raise_def)

lemma db_clauses_classify:
  assumes "body tr = (Raise e, tr1)" and "w tr1 Rollback = Return v"
  shows "try_except body
     [(IntegrityError, except_IntegrityError w), (SQLAlchemyError, except_SQLAlchemyError w)] tr =
     (if cls e = IntegrityError
      then (Raise (Exc DatabaseIntegrityError [PyTuple (args e)]),
            tr1 @ [Rollback, LoggerError ''Erro de Integridade do Banco de Dados: %s'' e])
      else if cls e = SQLAlchemyError
      then (Raise (Exc DatabaseError [PyTuple (args e)]),
            tr1 @ [Rollback, LoggerError ''Erro do Banco de Dados: %s'' e])
      else (Raise e, tr1))"
  using assms
  by (simp add: db_clauses_raise except_IntegrityError_run except_SQLAlchemyError_run)

lemma create_clauses_classify:
  assumes "body tr = (Raise e, tr1)" and "w tr1 Rollback = Return v"
  shows "try_except body
     [(ValidationError, \<lambda>e. raise (Exc InternalServerError [parsing_message, PyTuple (args e)])),
      (IntegrityError, except_IntegrityError w), (SQLAlchemyError, except_SQLAlchemyError w)] tr =
     (if cls e = ValidationError
      then (Raise (Exc InternalServerError [parsing_message, PyTuple (args e)]), tr1)
      else if cls e = IntegrityError
      then (Raise (Exc DatabaseIntegrityError [PyTuple (args e)]),
            tr1 @ [Rollback, LoggerError ''Erro de Integridade do Banco de Dados: %s'' e])
      else if cls e = SQLAlchemyError
      then (Raise (Exc DatabaseError [PyTuple (args e)]),
            tr1 @ [Rollback, LoggerError ''Erro do Banco de Dados: %s'' e])
      else (Raise e, tr1))"
  using assms
  by (simp add: create_clauses_raise except_IntegrityError_run except_SQLAlchemyError_run)

text \<open>
  When the rollback itself raises, its exception leaves the method: the clauses of a
  \<^verbatim>\<open>try\<close> do not catch what another clause raises.
\<close>

lemma db_clauses_rollback_raises:
  "body tr = (Raise e, tr1) \<Longrightarrow> isinstance e SQLAlchemyError \<Longrightarrow> w tr1 Rollback = Raise e' \<Longrightarrow>
   try_except body
     [(IntegrityError, except_IntegrityError w), (SQLAlchemyError, except_SQLAlchemyError w)] tr =
     (Raise e', tr1 @ [Rollback])"
  by (auto simp: try_except_def isinstance_def except_IntegrityError_def
        except_SQLAlchemyError_def seq_def call_def)

lemma create_clauses_rollback_raises:
  "body tr = (Raise e, tr1) \<Longrightarrow> isinstance e SQLAlchemyError \<Longrightarrow> w tr1 Rollback = Raise e' \<Longrightarrow>
   try_except body
     [(ValidationError, \<lambda>e. raise (Exc InternalServerError [parsing_message, PyTuple (args e)])),
      (IntegrityError, except_IntegrityError w), (SQLAlchemyError, except_SQLAlchemyError w)] tr =
     (Raise e', tr1 @ [Rollback])"
  by (auto simp: try_except_def isinstance_def except_IntegrityError_def
        except_SQLAlchemyError_def seq_def call_def)

lemma db_clauses_abort:
  assumes "body tr = (Raise e, tr1)" and "isinstance e SQLAlchemyError"
  shows "try_except body
     [(IntegrityError, except_IntegrityError w), (SQLAlchemyError, except_SQLAlchemyError w)] tr =
     (case w tr1 Rollback of
        Return v \<Rightarrow>
          (if cls e = IntegrityError
           then (Raise (Exc DatabaseIntegrityError [PyTuple (args e)]),
                 tr1 @ [Rollback, LoggerError ''Erro de Integridade do Banco de Dados: %s'' e])
           else (Raise (Exc DatabaseError [PyTuple (args e)]),
                 tr1 @ [Rollback, LoggerError ''Erro do Banco de Dados: %s'' e]))
      | Raise e' \<Rightarrow> (Raise e', tr1 @ [Rollback]))"
proof (cases "w tr1 Rollback")
  case (Return v)
  from assms(2) have "cls e = IntegrityError \<or> cls e = SQLAlchemyError"
    by (auto simp: isinstance_def)
  with Return show ?thesis
    using db_clauses_classify [of body tr e tr1 w v] assms(1) by auto
next
  case (Raise e')
  then show ?thesis
    using db_clauses_rollback_raises [of body tr e tr1 w e'] assms by simp
qed

lemma create_clauses_abort:
  assumes "body tr = (Raise e, tr1)" and "isinstance e SQLAlchemyError"
  shows "try_except body
     [(ValidationError, \<lambda>e. raise (Exc InternalServerError [parsing_message, PyTuple (args e)])),
      (IntegrityError, except_IntegrityError w), (SQLAlchemyError, except_SQLAlchemyError w)] tr =
     (case w tr1 Rollback of
        Return v \<Rightarrow>
          (if cls e = IntegrityError
           then (Raise (Exc DatabaseIntegrityError [PyTuple (args e)]),
                 tr1 @ [Rollback, LoggerError ''Erro de Integridade do Banco de Dados: %s'' e])
           else (Raise (Exc DatabaseError [PyTuple (args e)]),
                 tr1 @ [Rollback, LoggerError ''Erro do Banco de Dados: %s'' e]))
      | Raise e' \<Rightarrow> (Raise e', tr1 @ [Rollback]))"
proof (cases "w tr1 Rollback")
  case (Return v)
  from assms(2) have "cls e = IntegrityError \<or> cls e = SQLAlchemyError"
    by (auto simp: isinstance_def)
  with Return show ?thesis
    using create_clauses_classify [of body tr e tr1 w v] assms(1) by auto
next
  case (Raise e')
  then show ?thesis
    using create_clauses_rollback_raises [of body tr e tr1 w e'] assms by simp
qed

text \<open>The body of \<open>create\<close> never calls \<open>Rollback\<close>.\<close>

lemma create_try_no_rollback:
  "create_try w self db_obj obj_in tr = (r, tr1) \<Longrightarrow>
   \<exists>evs. tr1 = tr @ evs \<and> Rollback \<notin> set evs"
  by (auto simp: create_try_def construct_def seq_def call_def return_def raise_def
        split: option.splits result.splits)

text \<open>The clauses add no query to the trace.\<close>

lemma except_IntegrityError_trace:
  "\<exists>evs. snd (except_IntegrityError w e tr1) = tr1 @ evs \<and> filter is_query evs = []"
  by (cases "w tr1 Rollback")
     (simp_all add: except_IntegrityError_def seq_def call_def logger_error_def raise_def
        is_query_def)

lemma except_SQLAlchemyError_trace:
  "\<exists>evs. snd (except_SQLAlchemyError w e tr1) = tr1 @ evs \<and> filter is_query evs = []"
  by (cases "w tr1 Rollback")
     (simp_all add: except_SQLAlchemyError_def seq_def call_def logger_error_def raise_def
        is_query_def)

lemma db_clauses_trace:
  "\<exists>evs. snd (try_except body
       [(IntegrityError, except_IntegrityError w), (SQLAlchemyError, except_SQLAlchemyError w)] tr)
     = snd (body tr) @ evs \<and> filter is_query evs = []"
proof (cases "body tr")
  case (Pair r tr1)
  show ?thesis
  proof (cases r)
    case (Return x)
    with Pair show ?thesis by (simp add: try_except_def)
  next
    case (Raise e)
    with Pair have run: "body tr = (Raise e, tr1)" by simp
    have clauses: "try_except body
        [(IntegrityError, except_IntegrityError w), (SQLAlchemyError, except_SQLAlchemyError w)] tr =
        (if cls e = IntegrityError then except_IntegrityError w e tr1
         else if cls e = SQLAlchemyError then except_SQLAlchemyError w e tr1
         else (Raise e, tr1))"
      using run by (rule db_clauses_raise)
    show ?thesis
    proof (cases "cls e = IntegrityError")
      case True
      with clauses run except_IntegrityError_trace [of w e tr1] show ?thesis by simp
    next
      case False
      show ?thesis
      proof (cases "cls e = SQLAlchemyError")
        case True
        with False clauses run except_SQLAlchemyError_trace [of w e tr1] show ?thesis by simp
      next
        case no: False
        with False clauses run show ?thesis by simp
      qed
    qed
  qed
qed

lemma query_trace:
  assumes "snd (body tr) = tr @ [q]" and "is_query q"
  shows "filter is_query (drop (length tr) (snd (try_except body
       [(IntegrityError, except_IntegrityError w), (SQLAlchemyError, except_SQLAlchemyError w)] tr)))
     = [q]"
proof -
  obtain evs where
    "snd (try_except body
       [(IntegrityError, except_IntegrityError w), (SQLAlchemyError, except_SQLAlchemyError w)] tr)
     = snd (body tr) @ evs" and "filter is_query evs = []"
    using db_clauses_trace [of body w tr] by blast
  with assms show ?thesis by simp
qed

lemma get_try_trace:
  "snd (get_try w self model_type' id' tr) = tr @ [QueryFirst (py_or (model_type self) model_type') id']"
  by (cases "w tr (QueryFirst (py_or (model_type self) model_type') id')")
     (simp_all add: get_try_def seq_def call_def return_def)

lemma get_multi_try_trace:
  "snd (get_multi_try w self model_type' skip limit tr)
     = tr @ [QueryAll (py_or (model_type self) model_type') skip limit]"
  by (cases "w tr (QueryAll (py_or (model_type self) model_type') skip limit)")
     (simp_all add: get_multi_try_def seq_def call_def return_def)

text \<open>
  The exception that leaves a method whose body raised \<open>e\<close>: the classified one when
  the rollback of the clause returns, the rollback's own when it raises, and \<open>e\<close> when
  no clause matches.
\<close>

lemma db_clauses_result:
  assumes "body tr = (Raise e, tr1)"
  shows "fst (try_except body
     [(IntegrityError, except_IntegrityError w), (SQLAlchemyError, except_SQLAlchemyError w)] tr) =
     Raise (if cls e = IntegrityError
            then (case w tr1 Rollback of
                    Return v \<Rightarrow> Exc DatabaseIntegrityError [PyTuple (args e)]
                  | Raise e' \<Rightarrow> e')
            else if cls e = SQLAlchemyError
            then (case w tr1 Rollback of
                    Return v \<Rightarrow> Exc DatabaseError [PyTuple (args e)]
                  | Raise e' \<Rightarrow> e')
            else e)"
proof (cases "w tr1 Rollback")
  case (Return v)
  then show ?thesis
    using db_clauses_classify [of body tr e tr1 w v] assms by simp
next
  case (Raise e')
  show ?thesis
  proof (cases "isinstance e SQLAlchemyError")
    case True
    then have "cls e = IntegrityError \<or> cls e = SQLAlchemyError"
      by (auto simp: isinstance_def)
    then show ?thesis
      using db_clauses_rollback_raises [of body tr e tr1 w e'] assms Raise True by auto
  next
    case False
    then have "cls e \<noteq> IntegrityError \<and> cls e \<noteq> SQLAlchemyError"
      by (auto simp: isinstance_def)
    then show ?thesis
      using db_clauses_raise [of body tr e tr1 w] assms by simp
  qed
qed

lemma create_clauses_result:
  assumes "body tr = (Raise e, tr1)" and "cls e \<noteq> ValidationError"
  shows "fst (try_except body
     [(ValidationError, \<lambda>e. raise (Exc InternalServerError [parsing_message, PyTuple (args e)])),
      (IntegrityError, except_IntegrityError w), (SQLAlchemyError, except_SQLAlchemyError w)] tr) =
     Raise (if cls e = IntegrityError
            then (case w tr1 Rollback of
                    Return v \<Rightarrow> Exc DatabaseIntegrityError [PyTuple (args e)]
                  | Raise e' \<Rightarrow> e')
            else if cls e = SQLAlchemyError
            then (case w tr1 Rollback of
                    Return v \<Rightarrow> Exc DatabaseError [PyTuple (args e)]
                  | Raise e' \<Rightarrow> e')
            else e)"
proof (cases "w tr1 Rollback")
  case (Return v)
  then show ?thesis
    using create_clauses_classify [of body tr e tr1 w v] assms by simp
next
  case (Raise e')
  show ?thesis
  proof (cases "isinstance e SQLAlchemyError")
    case True
    then have "cls e = IntegrityError \<or> cls e = SQLAlchemyError"
      by (auto simp: isinstance_def)
    then show ?thesis
      using create_clauses_rollback_raises [of body tr e tr1 w e'] assms Raise True by auto
  next
    case False
    then have "cls e \<noteq> IntegrityError \<and> cls e \<noteq> SQLAlchemyError"
      by (auto simp: isinstance_def)
    then show ?thesis
      using create_clauses_raise [of body tr e tr1 w] assms by simp
  qed
qed

section \<open>The repository: the claims\<close>

text \<open>
  C4. When building the model from \<open>obj_in\<close> raises a \<open>ValidationError\<close>, \<open>create\<close>
  raises \<open>InternalServerError\<close> with a fixed message and the tuple of the cause's
  arguments, and the trace ends with the failed construction: no \<open>Rollback\<close> is called.
  The same holds for a \<open>ValidationError\<close> raised anywhere in the body of \<open>create\<close>.
\<close>

theorem create_validation_error:
  "(model_type self = Some t \<and> w tr (Construct t obj_in) = Raise e \<and> cls e = ValidationError \<longrightarrow>
      create w self db_obj obj_in tr =
        (Raise (Exc InternalServerError [parsing_message, PyTuple (args e)]),
         tr @ [Construct t obj_in]))
 \<and> (create_try w self db_obj obj_in tr = (Raise e, tr') \<and> cls e = ValidationError \<longrightarrow>
      create w self db_obj obj_in tr =
        (Raise (Exc InternalServerError [parsing_message, PyTuple (args e)]), tr')
      \<and> Rollback \<notin> set (drop (length tr) tr'))
 \<and> py_str parsing_message = ''Erro inesperado ao fazer o parsing para o modelo''"
proof (intro conjI impI)
  assume a: "model_type self = Some t \<and> w tr (Construct t obj_in) = Raise e \<and> cls e = ValidationError"
  then have "create_try w self db_obj obj_in tr = (Raise e, tr @ [Construct t obj_in])"
    by (simp add: create_try_def construct_def seq_def call_def)
  with a show "create w self db_obj obj_in tr =
        (Raise (Exc InternalServerError [parsing_message, PyTuple (args e)]),
         tr @ [Construct t obj_in])"
    by (simp add: create_def create_clauses_raise)
next
  assume b: "create_try w self db_obj obj_in tr = (Raise e, tr') \<and> cls e = ValidationError"
  then show "create w self db_obj obj_in tr =
        (Raise (Exc InternalServerError [parsing_message, PyTuple (args e)]), tr')"
    by (simp add: create_def create_clauses_raise)
  from b create_try_no_rollback [of w self db_obj obj_in tr "Raise e" tr']
  show "Rollback \<notin> set (drop (length tr) tr')" by auto
next
  show "py_str parsing_message = ''Erro inesperado ao fazer o parsing para o modelo''"
    by (simp add: parsing_message_def py_string_def)
qed

theorem create_validation_error_witness:
  "model_type \<lparr>model_type = Some (1::nat)\<rparr> = Some 1
 \<and> (failing_world 0 (Exc ValidationError [py_string ''field required''])) [] (Construct (1::nat) [(''name'', 3::nat)]) = Raise (Exc ValidationError [py_string ''field required''])
 \<and> cls (Exc ValidationError [py_string ''field required'']) = ValidationError
 \<and> create_try (failing_world 0 (Exc ValidationError [py_string ''field required''])) \<lparr>model_type = Some (1::nat)\<rparr> (7::nat) [(''name'', 3)] []
     = (Raise (Exc ValidationError [py_string ''field required'']), [Construct 1 [(''name'', 3)]])
 \<and> create (failing_world 0 (Exc ValidationError [py_string ''field required''])) \<lparr>model_type = Some (1::nat)\<rparr> (7::nat) [(''name'', 3)] []
     = (Raise (Exc InternalServerError [parsing_message, PyTuple [py_string ''field required'']]),
        [Construct 1 [(''name'', 3)]])"
  using create_validation_error [where w = "failing_world 0 (Exc ValidationError [py_string ''field required'']) :: (nat, nat) world" and self = "\<lparr>model_type = Some (1::nat)\<rparr>"
        and t = 1 and db_obj = 7 and obj_in = "[(''name'', 3)]" and tr = "[]" and e = "Exc ValidationError [py_string ''field required'']"
        and tr' = "[Construct 1 [(''name'', 3)]]"]
  by (simp add: create_try_def construct_def seq_def call_def failing_world_def)

text \<open>
  C5, as stated: in every method an \<open>IntegrityError\<close> of the body makes the method raise
  \<open>DatabaseIntegrityError\<close>. Each clause calls \<^verbatim>\<open>self.session.rollback()\<close> before it
  raises, and a rollback that raises ends the clause: with a query that raises an
  \<open>IntegrityError\<close> and a rollback that raises another \<open>SQLAlchemyError\<close>, \<open>get\<close> raises
  the rollback's exception, unclassified.
\<close>

theorem storage_failures_classified_counterexample:
  "get_try (rollback_failing_world (Exc IntegrityError [py_string ''duplicate key'']) (Exc SQLAlchemyError [py_string ''connection lost''])) \<lparr>model_type = Some (1::nat)\<rparr> None (5::nat) []
     = (Raise (Exc IntegrityError [py_string ''duplicate key'']), [QueryFirst (Some 1) 5])
 \<and> cls (Exc IntegrityError [py_string ''duplicate key'']) = IntegrityError
 \<and> get (rollback_failing_world (Exc IntegrityError [py_string ''duplicate key'']) (Exc SQLAlchemyError [py_string ''connection lost''])) \<lparr>model_type = Some (1::nat)\<rparr> None (5::nat) []
     = (Raise (Exc SQLAlchemyError [py_string ''connection lost'']), [QueryFirst (Some 1) 5, Rollback])
 \<and> fst (get (rollback_failing_world (Exc IntegrityError [py_string ''duplicate key'']) (Exc SQLAlchemyError [py_string ''connection lost''])) \<lparr>model_type = Some (1::nat)\<rparr> None (5::nat) [])
     \<noteq> Raise (Exc DatabaseIntegrityError [PyTuple [py_string ''duplicate key'']])"
  by (simp add: op_defs prog_defs rollback_failing_world_def)

text \<open>
  C5, amended. In each of the five methods, when the body raises an exception \<open>e\<close>:
  for an \<open>IntegrityError\<close> the method raises \<open>DatabaseIntegrityError(e.args)\<close>, and for
  any other \<open>SQLAlchemyError\<close> it raises \<open>DatabaseError(e.args)\<close>, provided the rollback
  of the clause returns; when the rollback raises, its exception leaves the method
  instead; and an exception of any other class leaves the method as it is (in
  \<open>create\<close>, any other class but \<open>ValidationError\<close>, which has its own clause).
\<close>

theorem storage_failures_classified:
  "(get_try w self model_type' id' tr = (Raise e, tr') \<longrightarrow>
      fst (get w self model_type' id' tr) =
        Raise (if cls e = IntegrityError
               then (case w tr' Rollback of
                       Return v \<Rightarrow> Exc DatabaseIntegrityError [PyTuple (args e)]
                     | Raise e' \<Rightarrow> e')
               else if cls e = SQLAlchemyError
               then (case w tr' Rollback of
                       Return v \<Rightarrow> Exc DatabaseError [PyTuple (args e)]
                     | Raise e' \<Rightarrow> e')
               else e))
 \<and> (get_multi_try w self model_type' skip limit tr = (Raise e, tr') \<longrightarrow>
      fst (get_multi w self model_type' skip limit tr) =
        Raise (if cls e = IntegrityError
               then (case w tr' Rollback of
                       Return v \<Rightarrow> Exc DatabaseIntegrityError [PyTuple (args e)]
                     | Raise e' \<Rightarrow> e')
               else if cls e = SQLAlchemyError
               then (case w tr' Rollback of
                       Return v \<Rightarrow> Exc DatabaseError [PyTuple (args e)]
                     | Raise e' \<Rightarrow> e')
               else e))
 \<and> (create_try w self db_obj obj_in tr = (Raise e, tr') \<and> cls e \<noteq> ValidationError \<longrightarrow>
      fst (create w self db_obj obj_in tr) =
        Raise (if cls e = IntegrityError
               then (case w tr' Rollback of
                       Return v \<Rightarrow> Exc DatabaseIntegrityError [PyTuple (args e)]
                     | Raise e' \<Rightarrow> e')
               else if cls e = SQLAlchemyError
               then (case w tr' Rollback of
                       Return v \<Rightarrow> Exc DatabaseError [PyTuple (args e)]
                     | Raise e' \<Rightarrow> e')
               else e))
 \<and> (update_try w self db_obj obj_in tr = (Raise e, tr') \<longrightarrow>
      fst (update w self db_obj obj_in tr) =
        Raise (if cls e = IntegrityError
               then (case w tr' Rollback of
                       Return v \<Rightarrow> Exc DatabaseIntegrityError [PyTuple (args e)]
                     | Raise e' \<Rightarrow> e')
               else if cls e = SQLAlchemyError
               then (case w tr' Rollback of
                       Return v \<Rightarrow> Exc DatabaseError [PyTuple (args e)]
                     | Raise e' \<Rightarrow> e')
               else e))
 \<and> (delete_try w self db_obj tr = (Raise e, tr') \<longrightarrow>
      fst (delete w self db_obj tr) =
        Raise (if cls e = IntegrityError
               then (case w tr' Rollback of
                       Return v \<Rightarrow> Exc DatabaseIntegrityError [PyTuple (args e)]
                     | Raise e' \<Rightarrow> e')
               else if cls e = SQLAlchemyError
               then (case w tr' Rollback of
                       Return v \<Rightarrow> Exc DatabaseError [PyTuple (args e)]
                     | Raise e' \<Rightarrow> e')
               else e))"
  unfolding get_def get_multi_def create_def update_def delete_def
proof (intro conjI impI)
qed ((elim conjE)?, (rule db_clauses_result create_clauses_result; assumption))+

theorem storage_failures_classified_witness:
  "get_try (failing_world 0 (Exc IntegrityError [py_string ''duplicate key''])) \<lparr>model_type = Some (1::nat)\<rparr> None (5::nat) [] = (Raise (Exc IntegrityError [py_string ''duplicate key'']), [QueryFirst (Some 1) 5])
 \<and> (failing_world 0 (Exc IntegrityError [py_string ''duplicate key''])) [QueryFirst (Some (1::nat)) (5::nat)] Rollback = Return 0
 \<and> fst (get (failing_world 0 (Exc IntegrityError [py_string ''duplicate key''])) \<lparr>model_type = Some (1::nat)\<rparr> None (5::nat) [])
     = Raise (Exc DatabaseIntegrityError [PyTuple [py_string ''duplicate key'']])
 \<and> fst (get_multi (failing_world 0 (Exc IntegrityError [py_string ''duplicate key''])) \<lparr>model_type = Some (1::nat)\<rparr> None 0 10 [])
     = Raise (Exc DatabaseIntegrityError [PyTuple [py_string ''duplicate key'']])
 \<and> fst (create (failing_world 0 (Exc IntegrityError [py_string ''duplicate key''])) \<lparr>model_type = Some (1::nat)\<rparr> (7::nat) [(''name'', 3)] [])
     = Raise (Exc DatabaseIntegrityError [PyTuple [py_string ''duplicate key'']])
 \<and> fst (update (failing_world 0 (Exc IntegrityError [py_string ''duplicate key''])) \<lparr>model_type = Some (1::nat)\<rparr> (7::nat) [(''name'', 3)] [])
     = Raise (Exc DatabaseIntegrityError [PyTuple [py_string ''duplicate key'']])
 \<and> fst (delete (failing_world 0 (Exc IntegrityError [py_string ''duplicate key''])) \<lparr>model_type = Some (1::nat)\<rparr> (7::nat) [])
     = Raise (Exc DatabaseIntegrityError [PyTuple [py_string ''duplicate key'']])"
  using storage_failures_classified [where w = "failing_world 0 (Exc IntegrityError [py_string ''duplicate key'']) :: (nat, nat) world" and self = "\<lparr>model_type = Some (1::nat)\<rparr>"
        and model_type' = None and id' = 5 and skip = 0 and limit = 10 and db_obj = 7
        and obj_in = "[(''name'', 3)]" and tr = "[]" and e = "Exc IntegrityError [py_string ''duplicate key'']"
        and tr' = "[QueryFirst (Some 1) 5]"]
    storage_failures_classified [where w = "failing_world 0 (Exc IntegrityError [py_string ''duplicate key'']) :: (nat, nat) world" and self = "\<lparr>model_type = Some (1::nat)\<rparr>"
        and model_type' = None and id' = 5 and skip = 0 and limit = 10 and db_obj = 7
        and obj_in = "[(''name'', 3)]" and tr = "[]" and e = "Exc IntegrityError [py_string ''duplicate key'']"
        and tr' = "[QueryAll (Some 1) 0 10]"]
    storage_failures_classified [where w = "failing_world 0 (Exc IntegrityError [py_string ''duplicate key'']) :: (nat, nat) world" and self = "\<lparr>model_type = Some (1::nat)\<rparr>"
        and model_type' = None and id' = 5 and skip = 0 and limit = 10 and db_obj = 7
        and obj_in = "[(''name'', 3)]" and tr = "[]" and e = "Exc IntegrityError [py_string ''duplicate key'']"
        and tr' = "[Construct 1 [(''name'', 3)]]"]
    storage_failures_classified [where w = "failing_world 0 (Exc IntegrityError [py_string ''duplicate key'']) :: (nat, nat) world" and self = "\<lparr>model_type = Some (1::nat)\<rparr>"
        and model_type' = None and id' = 5 and skip = 0 and limit = 10 and db_obj = 7
        and obj_in = "[(''name'', 3)]" and tr = "[]" and e = "Exc IntegrityError [py_string ''duplicate key'']"
        and tr' = "[SetAttr 7 ''name'' 3]"]
    storage_failures_classified [where w = "failing_world 0 (Exc IntegrityError [py_string ''duplicate key'']) :: (nat, nat) world" and self = "\<lparr>model_type = Some (1::nat)\<rparr>"
        and model_type' = None and id' = 5 and skip = 0 and limit = 10 and db_obj = 7
        and obj_in = "[(''name'', 3)]" and tr = "[]" and e = "Exc IntegrityError [py_string ''duplicate key'']"
        and tr' = "[Delete 7]"]
  by (simp add: op_defs prog_defs failing_world_def)

text \<open>
  C6. In each of the five methods, when the body raises an \<open>IntegrityError\<close> or another
  \<open>SQLAlchemyError\<close>, the next call is \<open>Rollback\<close>. If it returns, the error is logged
  and the classified exception is raised, so that the trace at the raise ends with the
  rollback and the log record and no call follows. If the rollback raises, its exception
  leaves the method and no classified exception is raised.
\<close>

theorem rollback_before_raise:
  "(get_try w self model_type' id' tr = (Raise e, tr') \<and> isinstance e SQLAlchemyError \<longrightarrow>
      get w self model_type' id' tr =
        (case w tr' Rollback of
           Return v \<Rightarrow>
             (if cls e = IntegrityError
              then (Raise (Exc DatabaseIntegrityError [PyTuple (args e)]),
                    tr' @ [Rollback, LoggerError ''Erro de Integridade do Banco de Dados: %s'' e])
              else (Raise (Exc DatabaseError [PyTuple (args e)]),
                    tr' @ [Rollback, LoggerError ''Erro do Banco de Dados: %s'' e]))
         | Raise e' \<Rightarrow> (Raise e', tr' @ [Rollback])))
 \<and> (get_multi_try w self model_type' skip limit tr = (Raise e, tr') \<and> isinstance e SQLAlchemyError \<longrightarrow>
      get_multi w self model_type' skip limit tr =
        (case w tr' Rollback of
           Return v \<Rightarrow>
             (if cls e = IntegrityError
              then (Raise (Exc DatabaseIntegrityError [PyTuple (args e)]),
                    tr' @ [Rollback, LoggerError ''Erro de Integridade do Banco de Dados: %s'' e])
              else (Raise (Exc DatabaseError [PyTuple (args e)]),
                    tr' @ [Rollback, LoggerError ''Erro do Banco de Dados: %s'' e]))
         | Raise e' \<Rightarrow> (Raise e', tr' @ [Rollback])))
 \<and> (create_try w self db_obj obj_in tr = (Raise e, tr') \<and> isinstance e SQLAlchemyError \<longrightarrow>
      create w self db_obj obj_in tr =
        (case w tr' Rollback of
           Return v \<Rightarrow>
             (if cls e = IntegrityError
              then (Raise (Exc DatabaseIntegrityError [PyTuple (args e)]),
                    tr' @ [Rollback, LoggerError ''Erro de Integridade do Banco de Dados: %s'' e])
              else (Raise (Exc DatabaseError [PyTuple (args e)]),
                    tr' @ [Rollback, LoggerError ''Erro do Banco de Dados: %s'' e]))
         | Raise e' \<Rightarrow> (Raise e', tr' @ [Rollback])))
 \<and> (update_try w self db_obj obj_in tr = (Raise e, tr') \<and> isinstance e SQLAlchemyError \<longrightarrow>
      update w self db_obj obj_in tr =
        (case w tr' Rollback of
           Return v \<Rightarrow>
             (if cls e = IntegrityError
              then (Raise (Exc DatabaseIntegrityError [PyTuple (args e)]),
                    tr' @ [Rollback, LoggerError ''Erro de Integridade do Banco de Dados: %s'' e])
              else (Raise (Exc DatabaseError [PyTuple (args e)]),
                    tr' @ [Rollback, LoggerError ''Erro do Banco de Dados: %s'' e]))
         | Raise e' \<Rightarrow> (Raise e', tr' @ [Rollback])))
 \<and> (delete_try w self db_obj tr = (Raise e, tr') \<and> isinstance e SQLAlchemyError \<longrightarrow>
      delete w self db_obj tr =
        (case w tr' Rollback of
           Return v \<Rightarrow>
             (if cls e = IntegrityError
              then (Raise (Exc DatabaseIntegrityError [PyTuple (args e)]),
                    tr' @ [Rollback, LoggerError ''Erro de Integridade do Banco de Dados: %s'' e])
              else (Raise (Exc DatabaseError [PyTuple (args e)]),
                    tr' @ [Rollback, LoggerError ''Erro do Banco de Dados: %s'' e]))
         | Raise e' \<Rightarrow> (Raise e', tr' @ [Rollback])))"
  unfolding get_def get_multi_def create_def update_def delete_def
proof (intro conjI impI)
qed (elim conjE, (rule db_clauses_abort create_clauses_abort; assumption))+

theorem rollback_before_raise_witness:
  "get_try (failing_world 0 (Exc IntegrityError [py_string ''duplicate key''])) \<lparr>model_type = Some (1::nat)\<rparr> None (5::nat) [] = (Raise (Exc IntegrityError [py_string ''duplicate key'']), [QueryFirst (Some 1) 5])
 \<and> isinstance (Exc IntegrityError [py_string ''duplicate key'']) SQLAlchemyError
 \<and> get (failing_world 0 (Exc IntegrityError [py_string ''duplicate key''])) \<lparr>model_type = Some (1::nat)\<rparr> None (5::nat) []
     = (Raise (Exc DatabaseIntegrityError [PyTuple [py_string ''duplicate key'']]),
        [QueryFirst (Some 1) 5, Rollback,
         LoggerError ''Erro de Integridade do Banco de Dados: %s'' (Exc IntegrityError [py_string ''duplicate key''])])
 \<and> get_multi (failing_world 0 (Exc IntegrityError [py_string ''duplicate key''])) \<lparr>model_type = Some (1::nat)\<rparr> None 0 10 []
     = (Raise (Exc DatabaseIntegrityError [PyTuple [py_string ''duplicate key'']]),
        [QueryAll (Some 1) 0 10, Rollback,
         LoggerError ''Erro de Integridade do Banco de Dados: %s'' (Exc IntegrityError [py_string ''duplicate key''])])
 \<and> create (failing_world 0 (Exc IntegrityError [py_string ''duplicate key''])) \<lparr>model_type = Some (1::nat)\<rparr> (7::nat) [(''name'', 3)] []
     = (Raise (Exc DatabaseIntegrityError [PyTuple [py_string ''duplicate key'']]),
        [Construct 1 [(''name'', 3)], Rollback,
         LoggerError ''Erro de Integridade do Banco de Dados: %s'' (Exc IntegrityError [py_string ''duplicate key''])])
 \<and> update (failing_world 0 (Exc IntegrityError [py_string ''duplicate key''])) \<lparr>model_type = Some (1::nat)\<rparr> (7::nat) [(''name'', 3)] []
     = (Raise (Exc DatabaseIntegrityError [PyTuple [py_string ''duplicate key'']]),
        [SetAttr 7 ''name'' 3, Rollback,
         LoggerError ''Erro de Integridade do Banco de Dados: %s'' (Exc IntegrityError [py_string ''duplicate key''])])
 \<and> delete (failing_world 0 (Exc IntegrityError [py_string ''duplicate key''])) \<lparr>model_type = Some (1::nat)\<rparr> (7::nat) []
     = (Raise (Exc DatabaseIntegrityError [PyTuple [py_string ''duplicate key'']]),
        [Delete 7, Rollback,
         LoggerError ''Erro de Integridade do Banco de Dados: %s'' (Exc IntegrityError [py_string ''duplicate key''])])"
  using rollback_before_raise [where w = "failing_world 0 (Exc IntegrityError [py_string ''duplicate key'']) :: (nat, nat) world" and self = "\<lparr>model_type = Some (1::nat)\<rparr>"
        and model_type' = None and id' = 5 and skip = 0 and limit = 10 and db_obj = 7
        and obj_in = "[(''name'', 3)]" and tr = "[]" and e = "Exc IntegrityError [py_string ''duplicate key'']"
        and tr' = "[QueryFirst (Some 1) 5]"]
    rollback_before_raise [where w = "failing_world 0 (Exc IntegrityError [py_string ''duplicate key'']) :: (nat, nat) world" and self = "\<lparr>model_type = Some (1::nat)\<rparr>"
        and model_type' = None and id' = 5 and skip = 0 and limit = 10 and db_obj = 7
        and obj_in = "[(''name'', 3)]" and tr = "[]" and e = "Exc IntegrityError [py_string ''duplicate key'']"
        and tr' = "[QueryAll (Some 1) 0 10]"]
    rollback_before_raise [where w = "failing_world 0 (Exc IntegrityError [py_string ''duplicate key'']) :: (nat, nat) world" and self = "\<lparr>model_type = Some (1::nat)\<rparr>"
        and model_type' = None and id' = 5 and skip = 0 and limit = 10 and db_obj = 7
        and obj_in = "[(''name'', 3)]" and tr = "[]" and e = "Exc IntegrityError [py_string ''duplicate key'']"
        and tr' = "[Construct 1 [(''name'', 3)]]"]
    rollback_before_raise [where w = "failing_world 0 (Exc IntegrityError [py_string ''duplicate key'']) :: (nat, nat) world" and self = "\<lparr>model_type = Some (1::nat)\<rparr>"
        and model_type' = None and id' = 5 and skip = 0 and limit = 10 and db_obj = 7
        and obj_in = "[(''name'', 3)]" and tr = "[]" and e = "Exc IntegrityError [py_string ''duplicate key'']"
        and tr' = "[SetAttr 7 ''name'' 3]"]
    rollback_before_raise [where w = "failing_world 0 (Exc IntegrityError [py_string ''duplicate key'']) :: (nat, nat) world" and self = "\<lparr>model_type = Some (1::nat)\<rparr>"
        and model_type' = None and id' = 5 and skip = 0 and limit = 10 and db_obj = 7
        and obj_in = "[(''name'', 3)]" and tr = "[]" and e = "Exc IntegrityError [py_string ''duplicate key'']"
        and tr' = "[Delete 7]"]
  by (simp add: op_defs prog_defs failing_world_def)

text \<open>
  C9. In \<open>get\<close> and \<open>get_multi\<close> exactly one query is issued. It is on the model
  class given at construction when there is one, whatever class the call is given, and on
  the class of the call when the repository was constructed with \<open>None\<close>. With a
  construction-time class the call's class changes nothing of what the method does.
\<close>

theorem construction_time_model_type_first:
  "filter is_query (drop (length tr) (snd (get w \<lparr>model_type = Some t\<rparr> model_type' id' tr)))
     = [QueryFirst (Some t) id']
 \<and> filter is_query (drop (length tr) (snd (get w \<lparr>model_type = None\<rparr> model_type' id' tr)))
     = [QueryFirst model_type' id']
 \<and> filter is_query
      (drop (length tr) (snd (get_multi w \<lparr>model_type = Some t\<rparr> model_type' skip limit tr)))
     = [QueryAll (Some t) skip limit]
 \<and> filter is_query
      (drop (length tr) (snd (get_multi w \<lparr>model_type = None\<rparr> model_type' skip limit tr)))
     = [QueryAll model_type' skip limit]
 \<and> get w \<lparr>model_type = Some t\<rparr> model_type' id' tr = get w \<lparr>model_type = Some t\<rparr> other_type id' tr
 \<and> get_multi w \<lparr>model_type = Some t\<rparr> model_type' skip limit tr
     = get_multi w \<lparr>model_type = Some t\<rparr> other_type skip limit tr"
proof (intro conjI)
  show "filter is_query (drop (length tr) (snd (get w \<lparr>model_type = Some t\<rparr> model_type' id' tr)))
     = [QueryFirst (Some t) id']"
    unfolding get_def
    using query_trace [of "get_try w \<lparr>model_type = Some t\<rparr> model_type' id'" tr
        "QueryFirst (Some t) id'" w]
      get_try_trace [of w "\<lparr>model_type = Some t\<rparr>" model_type' id' tr]
    by (simp add: is_query_def py_or_def)
  show "filter is_query (drop (length tr) (snd (get w \<lparr>model_type = None\<rparr> model_type' id' tr)))
     = [QueryFirst model_type' id']"
    unfolding get_def
    using query_trace [of "get_try w \<lparr>model_type = None\<rparr> model_type' id'" tr
        "QueryFirst model_type' id'" w]
      get_try_trace [of w "\<lparr>model_type = None\<rparr>" model_type' id' tr]
    by (simp add: is_query_def py_or_def)
  show "filter is_query
      (drop (length tr) (snd (get_multi w \<lparr>model_type = Some t\<rparr> model_type' skip limit tr)))
     = [QueryAll (Some t) skip limit]"
    unfolding get_multi_def
    using query_trace [of "get_multi_try w \<lparr>model_type = Some t\<rparr> model_type' skip limit" tr
        "QueryAll (Some t) skip limit" w]
      get_multi_try_trace [of w "\<lparr>model_type = Some t\<rparr>" model_type' skip limit tr]
    by (simp add: is_query_def py_or_def)
  show "filter is_query
      (drop (length tr) (snd (get_multi w \<lparr>model_type = None\<rparr> model_type' skip limit tr)))
     = [QueryAll model_type' skip limit]"
    unfolding get_multi_def
    using query_trace [of "get_multi_try w \<lparr>model_type = None\<rparr> model_type' skip limit" tr
        "QueryAll model_type' skip limit" w]
      get_multi_try_trace [of w "\<lparr>model_type = None\<rparr>" model_type' skip limit tr]
    by (simp add: is_query_def py_or_def)
  show "get w \<lparr>model_type = Some t\<rparr> model_type' id' tr = get w \<lparr>model_type = Some t\<rparr> other_type id' tr"
    by (simp add: get_def get_try_def py_or_def)
  show "get_multi w \<lparr>model_type = Some t\<rparr> model_type' skip limit tr
     = get_multi w \<lparr>model_type = Some t\<rparr> other_type skip limit tr"
    by (simp add: get_multi_def get_multi_try_def py_or_def)
qed

text \<open>
  C10. \<open>create\<close> does not depend on its \<open>db_obj\<close> argument: with two values for it and
  the same \<open>obj_in\<close> the result and the calls made are the same. When no call raises,
  the object returned is the one the model class constructed from \<open>obj_in\<close>, after
  \<open>Add\<close>, \<open>Commit\<close> and \<open>Refresh\<close> on that object.
\<close>

theorem create_ignores_db_obj:
  "create w self db_obj obj_in tr = create w self db_obj' obj_in tr
 \<and> (model_type self = Some t
      \<and> w tr (Construct t obj_in) = Return obj
      \<and> w (tr @ [Construct t obj_in]) (Add obj) = Return a
      \<and> w (tr @ [Construct t obj_in, Add obj]) Commit = Return b
      \<and> w (tr @ [Construct t obj_in, Add obj, Commit]) (Refresh obj) = Return c \<longrightarrow>
      create w self db_obj obj_in tr =
        (Return obj, tr @ [Construct t obj_in, Add obj, Commit, Refresh obj]))"
  by (simp add: create_def create_try_def construct_def seq_def call_def return_def try_except_def)

theorem create_ignores_db_obj_witness:
  "model_type \<lparr>model_type = Some (1::nat)\<rparr> = Some 1
 \<and> returning_world (9::nat) [] (Construct (1::nat) [(''name'', 3)]) = Return 9
 \<and> create (returning_world (9::nat)) \<lparr>model_type = Some (1::nat)\<rparr> 7 [(''name'', 3)] []
     = create (returning_world 9) \<lparr>model_type = Some (1::nat)\<rparr> 8 [(''name'', 3)] []
 \<and> create (returning_world (9::nat)) \<lparr>model_type = Some (1::nat)\<rparr> 7 [(''name'', 3)] []
     = (Return 9, [Construct 1 [(''name'', 3)], Add 9, Commit, Refresh 9])"
  using create_ignores_db_obj [where w = "returning_world 9 :: (nat, nat) world" and self = "\<lparr>model_type = Some (1::nat)\<rparr>"
        and t = 1 and db_obj = 7 and db_obj' = 8 and obj_in = "[(''name'', 3)]" and tr = "[]"
        and obj = 9 and a = 9 and b = 9 and c = 9]
  by (auto simp: returning_world_def)

end
